theory Spec2Isabelle
  imports Main "HOL-Library.Sublist" "HOL-Library.AList"
begin

text \<open>
  The authorization-aware proxy of Portainer in front of the Docker API: the list
  filters of \<open>api/http/proxy/filter.go\<close>, the transport and its strategies of
  \<open>api/http/proxy/transport.go\<close>, over the types of \<open>api/portainer.go\<close>.
\<close>

section \<open>Data model (api/portainer.go)\<close>

text \<open>
  \<^verbatim>\<open>UserID\<close>, \<open>TeamID\<close>, \<open>UserRole\<close>, \<open>ResourceControlID\<close> and \<open>ResourceAccessLevel\<close>
  are Go \<open>int\<close> types. No arithmetic is done on them, only equality tests, so they
  are modelled as \<open>int\<close>.
\<close>

type_synonym UserID = int
type_synonym TeamID = int
type_synonym UserRole = int
type_synonym ResourceControlID = int
type_synonym ResourceAccessLevel = int

text \<open>
  \<^verbatim>\<open>const ( _ UserRole = iota; AdministratorRole; StandardUserRole )\<close>
\<close>

definition AdministratorRole :: UserRole where
  "AdministratorRole = 1"

definition StandardUserRole :: UserRole where
  "StandardUserRole = 2"

text \<open>
  The struct \<open>ResourceControl\<close>. Its field \<open>ID\<close> is written \<open>ResourceControl_ID\<close>,
  the field \<open>ID\<close> of \<open>Team\<close> is written \<open>Team_ID\<close>; \<open>TokenData\<close> keeps \<open>ID\<close>.
\<close>

record ResourceControl =
  OwnerID :: UserID
  AccessLevel :: ResourceAccessLevel
  ResourceControl_ID :: ResourceControlID
  ResourceID :: string
  Users :: "UserID list"
  Teams :: "TeamID list"

record Team =
  Team_ID :: TeamID
  Name :: string

record TokenData =
  ID :: UserID
  Username :: string
  Role :: UserRole

section \<open>Decoded engine payloads\<close>

text \<open>
  The filters receive \<^verbatim>\<open>[]interface{}\<close>: the values \<open>encoding/json\<close> produces when
  it decodes into \<^verbatim>\<open>interface{}\<close>. An object is a \<^verbatim>\<open>map[string]interface{}\<close>, read
  here through \<open>map_of\<close>; a JSON \<open>null\<close> is the nil interface value. Numbers are
  \<open>float64\<close> in Go; the filters never compute with one, and the model keeps an integer.
\<close>

datatype json =
    JNull
  | JBool bool
  | JNumber int
  | JString string
  | JArray "json list"
  | JObject "(string \<times> json) list"

text \<open>
  The error values of the package, and any other Go error (by its message) for the
  failures of the collaborators.
\<close>

datatype error =
    ErrDockerVolumeIdentifierNotFound
  | ErrDockerContainerIdentifierNotFound
  | ErrDockerServiceIdentifierNotFound
  | ErrOther string

text \<open>
  What a call of a filter does: it returns a list with a nil error, it returns nil
  with an error, or a type assertion of the form \<^verbatim>\<open>x.(T)\<close> panics.
\<close>

datatype 'a outcome = Ok 'a | Err error | Panic

section \<open>Helpers of package proxy whose bodies are not among the sources\<close>

text \<open>
  Modelled from the spec: \<open>getResourceControlByResourceID\<close> is called in filter.go and
  transport.go but its body is missing. Spec 4.2: "finds the record matching the
  resource identifier (no match => treated as public)"; spec 3: "A resource never has
  more than one active control record". The model returns the first record of the list
  whose \<open>ResourceID\<close> is the identifier, \<open>None\<close> for the nil pointer.
\<close>

definition getResourceControlByResourceID ::
  "string \<Rightarrow> ResourceControl list \<Rightarrow> ResourceControl option" where
  "getResourceControlByResourceID resourceID resourceControls =
     find (\<lambda>resourceControl. resourceID = ResourceID resourceControl) resourceControls"

text \<open>
  The access decision in the words of spec 4.5:
  \<^verbatim>\<open>allowed(caller, groups, control) := control == null OR caller.isAdmin
     OR caller.id IN control.users OR groups INTERSECT control.groups != {}\<close>
\<close>

definition allowed :: "bool \<Rightarrow> UserID \<Rightarrow> TeamID list \<Rightarrow> ResourceControl option \<Rightarrow> bool" where
  "allowed callerIsAdmin callerId groups control \<longleftrightarrow>
     (case control of
        None \<Rightarrow> True
      | Some c \<Rightarrow> callerIsAdmin \<or> callerId \<in> set (Users c)
                 \<or> (\<exists>g \<in> set groups. g \<in> set (Teams c)))"

text \<open>
  Modelled from the spec: \<open>canUserAccessResource\<close> is called in filter.go and
  transport.go but its body is missing. Both call sites pass the user identifier, the
  team identifiers and the (possibly nil) record, and no role: the administrator test of
  spec 4.5 is made by the callers (\<open>restrictedOperation\<close> tests the role before it
  calls). The model is the rest of the predicate of spec 4.5.
\<close>

definition canUserAccessResource ::
  "UserID \<Rightarrow> TeamID list \<Rightarrow> ResourceControl option \<Rightarrow> bool" where
  "canUserAccessResource userID userTeamIDs resourceControl \<longleftrightarrow>
     (case resourceControl of
        None \<Rightarrow> True
      | Some c \<Rightarrow> userID \<in> set (Users c) \<or> (\<exists>t \<in> set userTeamIDs. t \<in> set (Teams c)))"

section \<open>The list filters (api/http/proxy/filter.go)\<close>

text \<open>
  \<open>filterVolumeList\<close>, \<open>filterContainerList\<close> and \<open>filterServiceList\<close> have the same
  body up to the identifier constant (\<open>volumeIdentifier\<close>, \<open>containerIdentifier\<close>,
  \<open>serviceIdentifier\<close>) and the error returned. The three constants and
  \<open>decorateObject\<close> are not among the sources: they are parameters of the model, the
  identifier as a field name and \<open>decorateObject\<close> as any function from an object and a
  record to an object.

  \<open>filterLoop\<close> is the \<^verbatim>\<open>for _, volume := range volumeData\<close> loop with the slice
  \<open>filteredVolumeData\<close> as accumulator:
  \<^item> \<^verbatim>\<open>volume.(map[string]interface{})\<close> panics unless the element is an object;
  \<^item> \<^verbatim>\<open>volumeObject[volumeIdentifier] == nil\<close> holds when the key is missing or null;
  \<^item> \<^verbatim>\<open>volumeObject[volumeIdentifier].(string)\<close> panics unless the value is a string.
\<close>

type_synonym decorator = "(string \<times> json) list \<Rightarrow> ResourceControl \<Rightarrow> (string \<times> json) list"

fun filterLoop ::
  "string \<Rightarrow> error \<Rightarrow> decorator \<Rightarrow> json list \<Rightarrow> ResourceControl list \<Rightarrow> UserID \<Rightarrow> TeamID list
     \<Rightarrow> json list \<Rightarrow> json list outcome" where
  "filterLoop ident notFound decorateObject [] resourceControls userID userTeamIDs filtered =
     Ok filtered"
| "filterLoop ident notFound decorateObject (volume # rest) resourceControls userID userTeamIDs filtered =
     (case volume of
        JObject volumeObject \<Rightarrow>
          (case map_of volumeObject ident of
             None \<Rightarrow> Err notFound
           | Some JNull \<Rightarrow> Err notFound
           | Some (JString volumeID) \<Rightarrow>
               (case getResourceControlByResourceID volumeID resourceControls of
                  None \<Rightarrow>
                    filterLoop ident notFound decorateObject rest resourceControls userID userTeamIDs
                      (filtered @ [JObject volumeObject])
                | Some resourceControl \<Rightarrow>
                    if canUserAccessResource userID userTeamIDs (Some resourceControl)
                    then filterLoop ident notFound decorateObject rest resourceControls userID userTeamIDs
                           (filtered @ [JObject (decorateObject volumeObject resourceControl)])
                    else filterLoop ident notFound decorateObject rest resourceControls userID userTeamIDs
                           filtered)
           | Some _ \<Rightarrow> Panic)
      | _ \<Rightarrow> Panic)"

definition filterVolumeList ::
  "string \<Rightarrow> decorator \<Rightarrow> json list \<Rightarrow> ResourceControl list \<Rightarrow> UserID \<Rightarrow> TeamID list
     \<Rightarrow> json list outcome" where
  "filterVolumeList volumeIdentifier decorateObject volumeData resourceControls userID userTeamIDs =
     filterLoop volumeIdentifier ErrDockerVolumeIdentifierNotFound decorateObject
       volumeData resourceControls userID userTeamIDs []"

definition filterContainerList ::
  "string \<Rightarrow> decorator \<Rightarrow> json list \<Rightarrow> ResourceControl list \<Rightarrow> UserID \<Rightarrow> TeamID list
     \<Rightarrow> json list outcome" where
  "filterContainerList containerIdentifier decorateObject containerData resourceControls userID userTeamIDs =
     filterLoop containerIdentifier ErrDockerContainerIdentifierNotFound decorateObject
       containerData resourceControls userID userTeamIDs []"

definition filterServiceList ::
  "string \<Rightarrow> decorator \<Rightarrow> json list \<Rightarrow> ResourceControl list \<Rightarrow> UserID \<Rightarrow> TeamID list
     \<Rightarrow> json list outcome" where
  "filterServiceList serviceIdentifier decorateObject serviceData resourceControls userID userTeamIDs =
     filterLoop serviceIdentifier ErrDockerServiceIdentifierNotFound decorateObject
       serviceData resourceControls userID userTeamIDs []"

section \<open>The transport (api/http/proxy/transport.go)\<close>

text \<open>
  Of \<^verbatim>\<open>*http.Request\<close> the transport reads \<open>request.Method\<close> and \<open>request.URL.Path\<close>
  (field \<open>URL_Path\<close>); of a response the model keeps the status and the decoded body.
\<close>

record Request =
  Method :: string
  URL_Path :: string

record Response =
  StatusCode :: int
  Body :: json

text \<open>
  A Go result \<^verbatim>\<open>(*http.Response, error)\<close>: each component may be nil.
\<close>

type_synonym result = "Response option \<times> error option"

text \<open>
  The struct \<open>restrictedOperationContext\<close>; the fields \<open>userID\<close>, \<open>userTeamIDs\<close>
  and \<open>resourceControls\<close> are written with the prefix \<open>ctx_\<close>.
\<close>

record restrictedOperationContext =
  isAdmin :: bool
  ctx_userID :: UserID
  ctx_userTeamIDs :: "TeamID list"
  ctx_resourceControls :: "ResourceControl list"

text \<open>
  \<^verbatim>\<open>restrictedOperationRequest func(*http.Request, *http.Response, *restrictedOperationContext) error\<close>:
  the callback rewrites the response behind the pointer and returns an error; the model
  returns the response as the callback leaves it, and the error.
\<close>

type_synonym restrictedOperationRequest =
  "Request \<Rightarrow> Response option \<Rightarrow> restrictedOperationContext \<Rightarrow> result"

text \<open>
  Modelled from the spec: the argument of \<open>ResourceControlService.ResourceControls\<close>,
  \<open>portainer.VolumeResourceControl\<close>, is not declared in the sources. Spec glossary:
  "Resource kind: a category of engine-managed object (container, service, volume)".
\<close>

datatype ResourceControlType =
  ContainerResourceControl | ServiceResourceControl | VolumeResourceControl

text \<open>
  The struct \<open>proxyTransport\<close>. Each collaborator is the one method the transport calls:
  \<^item> \<open>dockerTransport\<close>: \<open>RoundTrip\<close> of the engine transport. The engine has a state of
    its own, so its answer may depend on the requests it has served before (the first
    argument);
  \<^item> \<open>ResourceControlService\<close>: \<open>ResourceControls(kind)\<close>;
  \<^item> \<open>TeamService\<close>: \<open>TeamsByUserID(id)\<close>.
  The two services return \<^verbatim>\<open>(value, error)\<close> and the transport reads the value only
  when the error is nil, so they are modelled as sums.
\<close>

record proxyTransport =
  dockerTransport :: "Request list \<Rightarrow> Request \<Rightarrow> result"
  ResourceControlService :: "ResourceControlType \<Rightarrow> error + ResourceControl list"
  TeamService :: "UserID \<Rightarrow> error + Team list"

text \<open>
  The functions of other files that transport.go calls and that are not among the
  sources are parameters of the model: \<open>context.GetTokenData\<close> (spec 6: "given a request,
  returns (identity id, role) or fails if no valid authentication context is present")
  and the two callbacks \<open>volumeListOperation\<close> and \<open>volumeInspectOperation\<close>.
\<close>

record externals =
  GetTokenData :: "Request \<Rightarrow> error + TokenData"
  volumeListOperation :: restrictedOperationRequest
  volumeInspectOperation :: restrictedOperationRequest

text \<open>
  Modelled from the spec: \<open>writeAccessDeniedResponse\<close> is called in transport.go but its
  body is missing. Spec 6: "Denied-access response: a fixed-status (forbidden) synthetic
  response with no engine round-trip"; spec 7: "AccessDenied -- not an error; a
  deliberate, successful forbidden response". The spec fixes the status only; the body is
  left empty.
\<close>

definition writeAccessDeniedResponse :: result where
  "writeAccessDeniedResponse = (Some \<lparr>StatusCode = 403, Body = JNull\<rparr>, None)"

text \<open>
  The state threaded through the transport is the list of the requests handed to the
  engine so far, oldest first. \<open>executeDockerRequest\<close> is the only function that
  touches it.
\<close>

definition executeDockerRequest ::
  "proxyTransport \<Rightarrow> Request \<Rightarrow> Request list \<Rightarrow> result \<times> Request list" where
  "executeDockerRequest p request engineLog =
     (dockerTransport p engineLog request, engineLog @ [request])"

definition restrictedOperation ::
  "externals \<Rightarrow> proxyTransport \<Rightarrow> Request \<Rightarrow> string \<Rightarrow> Request list \<Rightarrow> result \<times> Request list" where
  "restrictedOperation x p request resourceID engineLog =
     (case GetTokenData x request of
        Inl err \<Rightarrow> ((None, Some err), engineLog)
      | Inr tokenData \<Rightarrow>
          if Role tokenData \<noteq> AdministratorRole then
            (case TeamService p (ID tokenData) of
               Inl err \<Rightarrow> ((None, Some err), engineLog)
             | Inr userTeams \<Rightarrow>
                 let userTeamIDs = map Team_ID userTeams in
                 (case ResourceControlService p VolumeResourceControl of
                    Inl err \<Rightarrow> ((None, Some err), engineLog)
                  | Inr volumeResourceControls \<Rightarrow>
                      let volumeResourceControl =
                            getResourceControlByResourceID resourceID volumeResourceControls in
                      if \<not> canUserAccessResource (ID tokenData) userTeamIDs volumeResourceControl
                      then (writeAccessDeniedResponse, engineLog)
                      else executeDockerRequest p request engineLog))
          else executeDockerRequest p request engineLog)"

text \<open>
  \<open>rewriteOperation\<close>: the context starts with \<open>isAdmin: true\<close> and a nil slice of team
  identifiers; for another role \<open>isAdmin\<close> is reset and the teams are looked up.
\<close>

definition rewriteOperation ::
  "externals \<Rightarrow> proxyTransport \<Rightarrow> Request \<Rightarrow> restrictedOperationRequest \<Rightarrow> Request list
     \<Rightarrow> result \<times> Request list" where
  "rewriteOperation x p request operation engineLog =
     (case GetTokenData x request of
        Inl err \<Rightarrow> ((None, Some err), engineLog)
      | Inr tokenData \<Rightarrow>
          (case ResourceControlService p VolumeResourceControl of
             Inl err \<Rightarrow> ((None, Some err), engineLog)
           | Inr volumeResourceControls \<Rightarrow>
               (case (if Role tokenData \<noteq> AdministratorRole
                      then (case TeamService p (ID tokenData) of
                              Inl err \<Rightarrow> Inl err
                            | Inr userTeams \<Rightarrow>
                                Inr \<lparr>isAdmin = False, ctx_userID = ID tokenData,
                                     ctx_userTeamIDs = map Team_ID userTeams,
                                     ctx_resourceControls = volumeResourceControls\<rparr>)
                      else Inr \<lparr>isAdmin = True, ctx_userID = ID tokenData,
                                ctx_userTeamIDs = [],
                                ctx_resourceControls = volumeResourceControls\<rparr>) of
                  Inl err \<Rightarrow> ((None, Some err), engineLog)
                | Inr operationContext \<Rightarrow>
                    (case executeDockerRequest p request engineLog of
                       ((response, err), engineLog') \<Rightarrow>
                         if err \<noteq> None then ((response, err), engineLog')
                         else (operation request response operationContext, engineLog')))))"

definition administratorOperation ::
  "externals \<Rightarrow> proxyTransport \<Rightarrow> Request \<Rightarrow> Request list \<Rightarrow> result \<times> Request list" where
  "administratorOperation x p request engineLog =
     (case GetTokenData x request of
        Inl err \<Rightarrow> ((None, Some err), engineLog)
      | Inr tokenData \<Rightarrow>
          if Role tokenData \<noteq> AdministratorRole then (writeAccessDeniedResponse, engineLog)
          else executeDockerRequest p request engineLog)"

text \<open>
  \<open>path.Base\<close> of the Go standard library: the empty path gives \<open>.\<close>, trailing slashes
  are removed, what follows the last slash is returned, and a path of slashes only
  gives \<open>/\<close>.
\<close>

definition path_Base :: "string \<Rightarrow> string" where
  "path_Base path =
     (if path = [] then ''.''
      else
        let stripped = rev (dropWhile (\<lambda>c. c = CHR ''/'') (rev path));
            base = rev (takeWhile (\<lambda>c. c \<noteq> CHR ''/'') (rev stripped))
        in if base = [] then ''/'' else base)"

text \<open>
  \<open>proxyVolumeRequest\<close>. In the \<open>default\<close> case of the switch the results of
  \<open>p.rewriteOperation(...)\<close> and \<open>p.restrictedOperation(...)\<close> are not returned and not
  assigned: only what the two calls did to the engine remains, and control reaches the
  \<^verbatim>\<open>return p.executeDockerRequest(request)\<close> after the switch.
\<close>

definition proxyVolumeRequest ::
  "externals \<Rightarrow> proxyTransport \<Rightarrow> Request \<Rightarrow> Request list \<Rightarrow> result \<times> Request list" where
  "proxyVolumeRequest x p request engineLog =
     (let requestPath = URL_Path request in
      if requestPath = ''/volumes/create'' then executeDockerRequest p request engineLog
      else if requestPath = ''/volumes/prune'' then administratorOperation x p request engineLog
      else if requestPath = ''/volumes'' then
        rewriteOperation x p request (volumeListOperation x) engineLog
      else
        let engineLog1 =
              (if Method request = ''GET''
               then snd (rewriteOperation x p request (volumeInspectOperation x) engineLog)
               else engineLog);
            volumeID = path_Base requestPath;
            engineLog2 = snd (restrictedOperation x p request volumeID engineLog1)
        in executeDockerRequest p request engineLog2)"

definition proxyContainerRequest ::
  "proxyTransport \<Rightarrow> Request \<Rightarrow> Request list \<Rightarrow> result \<times> Request list" where
  "proxyContainerRequest p request engineLog = executeDockerRequest p request engineLog"

definition proxyServiceRequest ::
  "proxyTransport \<Rightarrow> Request \<Rightarrow> Request list \<Rightarrow> result \<times> Request list" where
  "proxyServiceRequest p request engineLog = executeDockerRequest p request engineLog"

definition proxyDockerRequest ::
  "externals \<Rightarrow> proxyTransport \<Rightarrow> Request \<Rightarrow> Request list \<Rightarrow> result \<times> Request list" where
  "proxyDockerRequest x p request engineLog =
     (let path = URL_Path request in
      if prefix ''/containers'' path then proxyContainerRequest p request engineLog
      else if prefix ''/services'' path then proxyServiceRequest p request engineLog
      else if prefix ''/volumes'' path then proxyVolumeRequest x p request engineLog
      else executeDockerRequest p request engineLog)"

definition RoundTrip ::
  "externals \<Rightarrow> proxyTransport \<Rightarrow> Request \<Rightarrow> Request list \<Rightarrow> result \<times> Request list" where
  "RoundTrip x p request engineLog = proxyDockerRequest x p request engineLog"

section \<open>Notions used to state the properties\<close>

text \<open>
  The identifier a filter reads from a document: defined when the document is an object
  whose identifier field holds a string.
\<close>

definition docIdentifier :: "string \<Rightarrow> json \<Rightarrow> string option" where
  "docIdentifier ident d =
     (case d of
        JObject obj \<Rightarrow> (case map_of obj ident of Some (JString s) \<Rightarrow> Some s | _ \<Rightarrow> None)
      | _ \<Rightarrow> None)"

text \<open>A document (an object) whose identifier field is missing or null.\<close>

definition identifierAbsent :: "string \<Rightarrow> json \<Rightarrow> bool" where
  "identifierAbsent ident d =
     (case d of
        JObject obj \<Rightarrow> (case map_of obj ident of None \<Rightarrow> True | Some JNull \<Rightarrow> True | _ \<Rightarrow> False)
      | _ \<Rightarrow> False)"

text \<open>
  The test the loop of a filter makes on a document with an identifier: no record, or a
  record that \<open>canUserAccessResource\<close> accepts.
\<close>

definition isKept :: "string \<Rightarrow> ResourceControl list \<Rightarrow> UserID \<Rightarrow> TeamID list \<Rightarrow> json \<Rightarrow> bool" where
  "isKept ident controls uid teamIDs d =
     (case docIdentifier ident d of
        None \<Rightarrow> False
      | Some i \<Rightarrow>
          (case getResourceControlByResourceID i controls of
             None \<Rightarrow> True
           | Some rc \<Rightarrow> canUserAccessResource uid teamIDs (Some rc)))"

text \<open>
  The form in which a kept document is appended: as it is when it has no record,
  through \<open>decorateObject\<close> when it has one.
\<close>

definition decorateIfControlled :: "string \<Rightarrow> decorator \<Rightarrow> ResourceControl list \<Rightarrow> json \<Rightarrow> json" where
  "decorateIfControlled ident decorateObject controls d =
     (case d of
        JObject obj \<Rightarrow>
          (case docIdentifier ident d of
             None \<Rightarrow> d
           | Some i \<Rightarrow>
               (case getResourceControlByResourceID i controls of
                  None \<Rightarrow> d
                | Some rc \<Rightarrow> JObject (decorateObject obj rc)))
      | _ \<Rightarrow> d)"

text \<open>
  The access decision of spec 4.5 on a document: the decision on the record found for
  its identifier.
\<close>

definition documentAllowed ::
  "bool \<Rightarrow> UserID \<Rightarrow> TeamID list \<Rightarrow> ResourceControl list \<Rightarrow> string \<Rightarrow> json \<Rightarrow> bool" where
  "documentAllowed callerIsAdmin callerId groups controls ident d =
     (case docIdentifier ident d of
        None \<Rightarrow> False
      | Some i \<Rightarrow> allowed callerIsAdmin callerId groups (getResourceControlByResourceID i controls))"

text \<open>
  Modelled from the spec: the list callback \<open>volumeListOperation\<close>, which receives the
  operation context with its \<open>isAdmin\<close> flag from \<open>rewriteOperation\<close>, is not among the
  sources (\<open>filterVolumeList\<close> itself takes no role). Spec 4.6, Response
  Filter/Decorator, on a decoded sequence of documents and the operation context:
  "Identifier field absent => fail the whole operation with a kind-specific identifier
  not found error"; "no matching control record => keep document unchanged";
  "matching control record, Access Decision allows => keep document, with ownership
  metadata merged into it"; "Access Decision denies => drop the document"; "Result: a
  new sequence preserving relative order of kept documents". The Access Decision is
  \<open>allowed\<close> of spec 4.5, with the administrator flag of the context.
\<close>

definition responseFilter ::
  "string \<Rightarrow> error \<Rightarrow> decorator \<Rightarrow> restrictedOperationContext \<Rightarrow> json list \<Rightarrow> json list outcome" where
  "responseFilter ident notFound decorateObject operationContext documents =
     (if \<exists>d \<in> set documents. docIdentifier ident d = None then Err notFound
      else Ok (map (decorateIfControlled ident decorateObject (ctx_resourceControls operationContext))
                 (filter (documentAllowed (isAdmin operationContext) (ctx_userID operationContext)
                            (ctx_userTeamIDs operationContext) (ctx_resourceControls operationContext) ident)
                    documents)))"

section \<open>Concrete scenarios\<close>

text \<open>
  A decoration in the shape of the scenario of spec 8,
  \<^verbatim>\<open>{name:"v2", owners:{groups:["G1"]}}\<close>: the owning users and groups under the key
  \<open>owners\<close>. It is used for concrete evaluations only.
\<close>

definition decorateOwners :: decorator where
  "decorateOwners obj rc =
     AList.update ''owners''
       (JObject [(''users'', JArray (map JNumber (Users rc))),
                 (''groups'', JArray (map JNumber (Teams rc)))]) obj"

text \<open>
  The volumes \<open>v1\<close> and \<open>v2\<close> of the scenarios of spec 8, and a record that scopes a
  volume to users and teams.
\<close>

definition volume :: "string \<Rightarrow> json" where
  "volume name = JObject [(''Name'', JString name), (''Driver'', JString ''local'')]"

definition control :: "string \<Rightarrow> UserID list \<Rightarrow> TeamID list \<Rightarrow> ResourceControl" where
  "control resourceID users teams =
     \<lparr>OwnerID = 0, AccessLevel = 0, ResourceControl_ID = 1, ResourceID = resourceID,
      Users = users, Teams = teams\<rparr>"

text \<open>
  An engine that answers every request with status 204, collaborators with fixed
  answers, and callbacks that leave the response as it is.
\<close>

definition engineNoContent :: "Request list \<Rightarrow> Request \<Rightarrow> result" where
  "engineNoContent served request = (Some \<lparr>StatusCode = 204, Body = JNull\<rparr>, None)"

definition fixedTransport ::
  "error + Team list \<Rightarrow> error + ResourceControl list \<Rightarrow> proxyTransport" where
  "fixedTransport teamsAnswer controlsAnswer =
     \<lparr>dockerTransport = engineNoContent,
      ResourceControlService = (\<lambda>kind. controlsAnswer),
      TeamService = (\<lambda>uid. teamsAnswer)\<rparr>"

definition keepResponse :: restrictedOperationRequest where
  "keepResponse request response operationContext = (response, None)"

definition fixedExternals :: "error + TokenData \<Rightarrow> externals" where
  "fixedExternals tokenAnswer =
     \<lparr>GetTokenData = (\<lambda>request. tokenAnswer),
      volumeListOperation = keepResponse,
      volumeInspectOperation = keepResponse\<rparr>"

definition standardUser :: TokenData where
  "standardUser = \<lparr>ID = 7, Username = ''u'', Role = StandardUserRole\<rparr>"

definition administrator :: TokenData where
  "administrator = \<lparr>ID = 1, Username = ''admin'', Role = AdministratorRole\<rparr>"

definition deleteV2 :: Request where
  "deleteV2 = \<lparr>Method = ''DELETE'', URL_Path = ''/volumes/v2''\<rparr>"

definition listVolumes :: Request where
  "listVolumes = \<lparr>Method = ''GET'', URL_Path = ''/volumes''\<rparr>"

definition team :: "TeamID \<Rightarrow> Team" where
  "team i = \<lparr>Team_ID = i, Name = ''t''\<rparr>"

section \<open>The loop of the filters\<close>

text \<open>
  On a list whose documents all carry a string identifier the loop returns the
  accumulator followed by the kept documents, in their order, each in the form
  \<open>decorateIfControlled\<close> gives it; and the loop returns a list on such lists only.
\<close>

lemma filterLoop_wellformed:
  "\<forall>d \<in> set docs. docIdentifier ident d \<noteq> None \<Longrightarrow>
   filterLoop ident notFound dec docs rcs uid teams acc =
     Ok (acc @ map (decorateIfControlled ident dec rcs) (filter (isKept ident rcs uid teams) docs))"
proof (induction docs arbitrary: acc)
  case Nil
  then show ?case by simp
next
  case (Cons d docs)
  from Cons.prems obtain obj i where d: "d = JObject obj" and i: "map_of obj ident = Some (JString i)"
    by (auto simp: docIdentifier_def split: json.splits option.splits)
  from Cons.prems have rest: "\<forall>d \<in> set docs. docIdentifier ident d \<noteq> None" by simp
  show ?case
    using d i Cons.IH[OF rest]
    by (simp add: isKept_def decorateIfControlled_def docIdentifier_def split: option.splits)
qed

lemma filterLoop_Ok_wellformed:
  "filterLoop ident notFound dec docs rcs uid teams acc = Ok out \<Longrightarrow>
   \<forall>d \<in> set docs. docIdentifier ident d \<noteq> None"
proof (induction docs arbitrary: acc)
  case Nil
  then show ?case by simp
next
  case (Cons d docs)
  from Cons.prems have hd: "docIdentifier ident d \<noteq> None"
    by (auto simp: docIdentifier_def split: json.splits option.splits)
  from Cons.prems have "\<exists>acc'. filterLoop ident notFound dec docs rcs uid teams acc' = Ok out"
    by (auto split: json.splits option.splits if_splits)
  then have "\<forall>d \<in> set docs. docIdentifier ident d \<noteq> None"
    using Cons.IH by blast
  with hd show ?case by simp
qed

lemma filterLoop_Ok_eq:
  assumes "filterLoop ident notFound dec docs rcs uid teams acc = Ok out"
  shows "out = acc @ map (decorateIfControlled ident dec rcs) (filter (isKept ident rcs uid teams) docs)"
  using filterLoop_wellformed[OF filterLoop_Ok_wellformed[OF assms], of notFound dec rcs uid teams acc] assms
  by simp

lemma filterLoop_Err:
  "filterLoop ident notFound dec docs rcs uid teams acc = Err e \<Longrightarrow> e = notFound"
proof (induction docs arbitrary: acc)
  case Nil
  then show ?case by simp
next
  case (Cons d docs)
  from Cons.prems have
    "e = notFound \<or> (\<exists>acc'. filterLoop ident notFound dec docs rcs uid teams acc' = Err e)"
    by (auto split: json.splits option.splits if_splits)
  then show ?case using Cons.IH by blast
qed

lemma filterLoop_absent:
  "\<forall>d \<in> set pre. docIdentifier ident d \<noteq> None \<Longrightarrow> identifierAbsent ident d \<Longrightarrow>
   filterLoop ident notFound dec (pre @ d # post) rcs uid teams acc = Err notFound"
proof (induction pre arbitrary: acc)
  case Nil
  then show ?case
    by (auto simp: identifierAbsent_def split: json.splits option.splits)
next
  case (Cons p pre)
  from Cons.prems obtain obj i where p: "p = JObject obj" and i: "map_of obj ident = Some (JString i)"
    by (auto simp: docIdentifier_def split: json.splits option.splits)
  from Cons.prems have rest: "\<forall>d \<in> set pre. docIdentifier ident d \<noteq> None" by simp
  show ?case
    using p i Cons.IH[OF rest Cons.prems(2)]
    by (simp split: option.splits)
qed

lemma identifierAbsent_not_wellformed:
  "identifierAbsent ident d \<Longrightarrow> docIdentifier ident d = None"
  by (auto simp: identifierAbsent_def docIdentifier_def split: json.splits option.splits)

lemma filterLoop_absent_never_Ok:
  assumes "identifierAbsent ident d" and "d \<in> set docs"
  shows "filterLoop ident notFound dec docs rcs uid teams acc = Err notFound
         \<or> filterLoop ident notFound dec docs rcs uid teams acc = Panic"
proof (cases "filterLoop ident notFound dec docs rcs uid teams acc")
  case (Ok out)
  from filterLoop_Ok_wellformed[OF Ok] assms identifierAbsent_not_wellformed[OF assms(1)]
  show ?thesis by auto
next
  case (Err e)
  with filterLoop_Err[OF Err] show ?thesis by simp
next
  case Panic
  then show ?thesis by simp
qed

lemma filterVolumeList_Ok_eq:
  "filterVolumeList ident dec docs rcs uid teams = Ok out \<Longrightarrow>
   out = map (decorateIfControlled ident dec rcs) (filter (isKept ident rcs uid teams) docs)"
  unfolding filterVolumeList_def by (drule filterLoop_Ok_eq) simp

lemma filterVolumeList_wellformed:
  "\<forall>d \<in> set docs. docIdentifier ident d \<noteq> None \<Longrightarrow>
   filterVolumeList ident dec docs rcs uid teams =
     Ok (map (decorateIfControlled ident dec rcs) (filter (isKept ident rcs uid teams) docs))"
  unfolding filterVolumeList_def by (simp add: filterLoop_wellformed)

lemma getResourceControlByResourceID_None:
  "getResourceControlByResourceID i rcs = None \<longleftrightarrow> (\<forall>rc \<in> set rcs. ResourceID rc \<noteq> i)"
  by (auto simp: getResourceControlByResourceID_def find_None_iff)

lemma docIdentifier_decorateIfControlled:
  assumes "\<forall>obj rc. map_of (dec obj rc) ident = map_of obj ident"
  shows "docIdentifier ident (decorateIfControlled ident dec rcs d) = docIdentifier ident d"
  using assms
  by (cases d) (auto simp: decorateIfControlled_def docIdentifier_def split: option.splits json.splits)

lemma isKept_decorateIfControlled:
  assumes "\<forall>obj rc. map_of (dec obj rc) ident = map_of obj ident"
  shows "isKept ident rcs uid teams (decorateIfControlled ident dec rcs d) = isKept ident rcs uid teams d"
  by (simp add: isKept_def docIdentifier_decorateIfControlled[OF assms])

lemma isKept_wellformed: "isKept ident rcs uid teams d \<Longrightarrow> docIdentifier ident d \<noteq> None"
  by (auto simp: isKept_def split: option.splits)

lemma decorateIfControlled_idem:
  assumes "\<forall>obj rc. map_of (dec obj rc) ident = map_of obj ident"
    and "\<forall>obj rc. dec (dec obj rc) rc = dec obj rc"
  shows "decorateIfControlled ident dec rcs (decorateIfControlled ident dec rcs d)
         = decorateIfControlled ident dec rcs d"
proof (cases d)
  case (JObject obj)
  show ?thesis
  proof (cases "docIdentifier ident d")
    case None
    then show ?thesis using JObject by (simp add: decorateIfControlled_def)
  next
    case (Some i)
    show ?thesis
    proof (cases "getResourceControlByResourceID i rcs")
      case None
      then show ?thesis using JObject Some by (simp add: decorateIfControlled_def)
    next
      case (Some rc)
      have d1: "decorateIfControlled ident dec rcs d = JObject (dec obj rc)"
        using JObject \<open>docIdentifier ident d = Some i\<close> Some by (simp add: decorateIfControlled_def)
      have "docIdentifier ident (JObject (dec obj rc)) = Some i"
        using docIdentifier_decorateIfControlled[OF assms(1), of rcs d] d1
          \<open>docIdentifier ident d = Some i\<close> by simp
      then have "decorateIfControlled ident dec rcs (JObject (dec obj rc)) = JObject (dec (dec obj rc) rc)"
        using Some by (simp add: decorateIfControlled_def)
      then show ?thesis using d1 assms(2) by simp
    qed
  qed
qed (simp_all add: decorateIfControlled_def)

lemma decorateOwners_keeps_Name:
  "map_of (decorateOwners obj rc) ''Name'' = map_of obj ''Name''"
  by (simp add: decorateOwners_def update_conv')

lemma decorateOwners_twice:
  "decorateOwners (decorateOwners obj rc) rc = decorateOwners obj rc"
  by (simp add: decorateOwners_def)

section \<open>Properties of the list filters\<close>

text \<open>
  C3, as the spec states it: every input list that contains a document whose identifier
  field is absent makes the filter fail with the identifier-not-found error of its kind.
  This fails when a malformed element comes first: on the list of \<^verbatim>\<open>{"Name": 5}\<close> and
  \<^verbatim>\<open>{}\<close> the second document has no identifier, but the assertion
  \<^verbatim>\<open>volumeObject[volumeIdentifier].(string)\<close> panics on the first one and no error is
  returned.
\<close>

theorem filter_absent_identifier_counterexample:
  "identifierAbsent ''Name'' (JObject [])
   \<and> filterVolumeList ''Name'' decorateOwners [JObject [(''Name'', JNumber 5)], JObject []] [] 7 []
       = Panic
   \<and> filterVolumeList ''Name'' decorateOwners [JObject [(''Name'', JNumber 5)], JObject []] [] 7 []
       \<noteq> Err ErrDockerVolumeIdentifierNotFound"
  by (simp add: identifierAbsent_def filterVolumeList_def)

text \<open>
  C3, amended: when every element before a document with an absent identifier is an
  object with a string identifier, each of the three filters fails as a whole with the
  error of its kind (\<open>ErrDockerVolumeIdentifierNotFound\<close>,
  \<open>ErrDockerContainerIdentifierNotFound\<close>, \<open>ErrDockerServiceIdentifierNotFound\<close>); and
  whatever the other elements are, a list that contains such a document is never
  answered with a filtered list: the call ends with that error or with a panic. The
  offending document is never skipped.
\<close>

theorem filter_absent_identifier_fails:
  "identifierAbsent ident d \<Longrightarrow>
   ((\<forall>p \<in> set pre. docIdentifier ident p \<noteq> None) \<longrightarrow>
      filterVolumeList ident dec (pre @ d # post) rcs uid teams = Err ErrDockerVolumeIdentifierNotFound
      \<and> filterContainerList ident dec (pre @ d # post) rcs uid teams = Err ErrDockerContainerIdentifierNotFound
      \<and> filterServiceList ident dec (pre @ d # post) rcs uid teams = Err ErrDockerServiceIdentifierNotFound)
   \<and> filterVolumeList ident dec (pre @ d # post) rcs uid teams \<in> {Err ErrDockerVolumeIdentifierNotFound, Panic}
   \<and> filterContainerList ident dec (pre @ d # post) rcs uid teams \<in> {Err ErrDockerContainerIdentifierNotFound, Panic}
   \<and> filterServiceList ident dec (pre @ d # post) rcs uid teams \<in> {Err ErrDockerServiceIdentifierNotFound, Panic}"
  unfolding filterVolumeList_def filterContainerList_def filterServiceList_def
  using filterLoop_absent[where pre = pre and ident = ident and d = d and dec = dec
      and post = post and rcs = rcs and uid = uid and teams = teams and acc = "[]"]
    filterLoop_absent_never_Ok[where ident = ident and d = d and docs = "pre @ d # post"
      and dec = dec and rcs = rcs and uid = uid and teams = teams and acc = "[]"]
  by auto

theorem filter_absent_identifier_fails_witness:
  "identifierAbsent ''Name'' (JObject [(''Driver'', JString ''local'')])
   \<and> docIdentifier ''Name'' (volume ''v1'') \<noteq> None
   \<and> filterVolumeList ''Name'' decorateOwners
        ([volume ''v1''] @ JObject [(''Driver'', JString ''local'')] # [volume ''v3'']) [] 7 []
       = Err ErrDockerVolumeIdentifierNotFound
   \<and> filterContainerList ''Name'' decorateOwners
        ([volume ''v1''] @ JObject [(''Driver'', JString ''local'')] # [volume ''v3'']) [] 7 []
       = Err ErrDockerContainerIdentifierNotFound
   \<and> filterServiceList ''Name'' decorateOwners
        ([volume ''v1''] @ JObject [(''Driver'', JString ''local'')] # [volume ''v3'']) [] 7 []
       = Err ErrDockerServiceIdentifierNotFound"
proof -
  have a: "identifierAbsent ''Name'' (JObject [(''Driver'', JString ''local'')])"
    by (simp add: identifierAbsent_def)
  have w: "docIdentifier ''Name'' (volume ''v1'') \<noteq> None"
    by (simp add: docIdentifier_def volume_def)
  then have w': "\<forall>p \<in> set [volume ''v1'']. docIdentifier ''Name'' p \<noteq> None"
    by simp
  show ?thesis
    using a w w' filter_absent_identifier_fails[OF a, of "[volume ''v1'']"
        decorateOwners "[volume ''v3'']" "[]" 7 "[]"]
    by blast
qed

text \<open>
  C6: whenever the list filter returns a list for an input of N documents, the list has
  at most N elements and consists of a subsequence of the input, in the input's order,
  each kept document in its decorated form when it has a control record and unchanged
  otherwise. The filter does return a list on every input whose documents all carry a
  string identifier.
\<close>

theorem filterVolumeList_length_order:
  "(filterVolumeList ident decorateObject volumeData resourceControls userID userTeamIDs = Ok filtered \<longrightarrow>
      length filtered \<le> length volumeData
      \<and> (\<exists>kept. subseq kept volumeData
            \<and> filtered = map (decorateIfControlled ident decorateObject resourceControls) kept))
   \<and> ((\<forall>d \<in> set volumeData. docIdentifier ident d \<noteq> None) \<longrightarrow>
        (\<exists>out. filterVolumeList ident decorateObject volumeData resourceControls userID userTeamIDs = Ok out))"
proof (intro conjI impI)
  assume ok: "filterVolumeList ident decorateObject volumeData resourceControls userID userTeamIDs = Ok filtered"
  let ?kept = "filter (isKept ident resourceControls userID userTeamIDs) volumeData"
  have eq: "filtered = map (decorateIfControlled ident decorateObject resourceControls) ?kept"
    using filterVolumeList_Ok_eq[OF ok] .
  show "length filtered \<le> length volumeData"
    unfolding eq by simp
  have "subseq ?kept volumeData" by simp
  with eq show "\<exists>kept. subseq kept volumeData
      \<and> filtered = map (decorateIfControlled ident decorateObject resourceControls) kept"
    by blast
next
  assume "\<forall>d \<in> set volumeData. docIdentifier ident d \<noteq> None"
  then show "\<exists>out. filterVolumeList ident decorateObject volumeData resourceControls userID userTeamIDs = Ok out"
    by (simp add: filterVolumeList_wellformed)
qed

theorem filterVolumeList_length_order_witness:
  "filterVolumeList ''Name'' decorateOwners [volume ''v1'', volume ''v2''] [control ''v2'' [] [2]] 7 [1]
     = Ok [volume ''v1'']
   \<and> length [volume ''v1''] \<le> length [volume ''v1'', volume ''v2'']
   \<and> (\<exists>kept. subseq kept [volume ''v1'', volume ''v2'']
         \<and> [volume ''v1''] = map (decorateIfControlled ''Name'' decorateOwners [control ''v2'' [] [2]]) kept)"
proof -
  have ev: "filterVolumeList ''Name'' decorateOwners [volume ''v1'', volume ''v2'']
      [control ''v2'' [] [2]] 7 [1] = Ok [volume ''v1'']"
    by (simp add: filterVolumeList_def volume_def control_def getResourceControlByResourceID_def
        canUserAccessResource_def)
  show ?thesis
    using ev filterVolumeList_length_order[of "''Name''" decorateOwners "[volume ''v1'', volume ''v2'']"
        "[control ''v2'' [] [2]]" 7 "[1]" "[volume ''v1'']"]
    by blast
qed

text \<open>
  C7: whatever the caller's identifier and teams, a document of the input whose
  identifier matches no control record is an element of the list the filter returns,
  as the very object it was in the input: \<open>decorateObject\<close> is not applied to it and
  no field is changed.
\<close>

theorem filterVolumeList_public_unchanged:
  assumes "filterVolumeList ident decorateObject volumeData resourceControls userID userTeamIDs = Ok filtered"
    and "JObject volumeObject \<in> set volumeData"
    and "map_of volumeObject ident = Some (JString volumeID)"
    and "\<forall>rc \<in> set resourceControls. ResourceID rc \<noteq> volumeID"
  shows "JObject volumeObject \<in> set filtered"
proof -
  have none: "getResourceControlByResourceID volumeID resourceControls = None"
    using assms(4) by (simp add: getResourceControlByResourceID_None)
  have i: "docIdentifier ident (JObject volumeObject) = Some volumeID"
    using assms(3) by (simp add: docIdentifier_def)
  have kept: "isKept ident resourceControls userID userTeamIDs (JObject volumeObject)"
    using i none by (simp add: isKept_def)
  have same: "decorateIfControlled ident decorateObject resourceControls (JObject volumeObject) = JObject volumeObject"
    using i none by (simp add: decorateIfControlled_def)
  have "JObject volumeObject \<in> set (filter (isKept ident resourceControls userID userTeamIDs) volumeData)"
    using assms(2) kept by simp
  then have "decorateIfControlled ident decorateObject resourceControls (JObject volumeObject)
      \<in> set (map (decorateIfControlled ident decorateObject resourceControls)
               (filter (isKept ident resourceControls userID userTeamIDs) volumeData))"
    by simp
  then show ?thesis
    using filterVolumeList_Ok_eq[OF assms(1)] same by simp
qed

theorem filterVolumeList_public_unchanged_witness:
  "filterVolumeList ''Name'' decorateOwners [volume ''v1'', volume ''v2''] [control ''v2'' [] [2]] 7 [1]
     = Ok [volume ''v1'']
   \<and> JObject [(''Name'', JString ''v1''), (''Driver'', JString ''local'')]
       \<in> set [volume ''v1'', volume ''v2'']
   \<and> map_of [(''Name'', JString ''v1''), (''Driver'', JString ''local'')] ''Name'' = Some (JString ''v1'')
   \<and> ResourceID (control ''v2'' [] [2]) \<noteq> ''v1''
   \<and> JObject [(''Name'', JString ''v1''), (''Driver'', JString ''local'')] \<in> set [volume ''v1'']"
proof -
  have ev: "filterVolumeList ''Name'' decorateOwners [volume ''v1'', volume ''v2'']
      [control ''v2'' [] [2]] 7 [1] = Ok [volume ''v1'']"
    by (simp add: filterVolumeList_def volume_def control_def getResourceControlByResourceID_def
        canUserAccessResource_def)
  have mem: "JObject [(''Name'', JString ''v1''), (''Driver'', JString ''local'')]
      \<in> set [volume ''v1'', volume ''v2'']"
    by (simp add: volume_def)
  have look: "map_of [(''Name'', JString ''v1''), (''Driver'', JString ''local'')] ''Name''
      = Some (JString ''v1'')"
    by simp
  have other: "ResourceID (control ''v2'' [] [2]) \<noteq> ''v1''"
    by (simp add: control_def)
  then have none: "\<forall>rc \<in> set [control ''v2'' [] [2]]. ResourceID rc \<noteq> ''v1''"
    by simp
  show ?thesis
    using ev mem look other filterVolumeList_public_unchanged[OF ev mem look none]
    by blast
qed

text \<open>
  C9: the model of the filter is a function of the input list, the control records, the
  caller's identifier and the team identifiers alone, as the source reads nothing else
  and ranges over slices only, so equal arguments give equal results. When
  \<open>decorateObject\<close> leaves the identifier field of an object as it is, filtering the
  returned list again with the same caller, records and teams returns a list again and
  keeps every document of it: same length, same identifiers in the same order, each
  element decorated once more when it has a record. When decorating twice is the same
  as decorating once, the second result is the first result.
\<close>

theorem filterVolumeList_idempotent:
  assumes "\<forall>obj rc. map_of (decorateObject obj rc) ident = map_of obj ident"
    and "filterVolumeList ident decorateObject volumeData resourceControls userID userTeamIDs = Ok filtered"
  shows "\<exists>again. filterVolumeList ident decorateObject filtered resourceControls userID userTeamIDs = Ok again
           \<and> length again = length filtered
           \<and> map (docIdentifier ident) again = map (docIdentifier ident) filtered
           \<and> again = map (decorateIfControlled ident decorateObject resourceControls) filtered
           \<and> ((\<forall>obj rc. decorateObject (decorateObject obj rc) rc = decorateObject obj rc)
                \<longrightarrow> again = filtered)"
proof -
  let ?D = "decorateIfControlled ident decorateObject resourceControls"
  let ?K = "isKept ident resourceControls userID userTeamIDs"
  have eq: "filtered = map ?D (filter ?K volumeData)"
    using filterVolumeList_Ok_eq[OF assms(2)] .
  have keptAll: "\<forall>d \<in> set filtered. ?K d"
    unfolding eq by (auto simp: isKept_decorateIfControlled[OF assms(1)])
  then have wf: "\<forall>d \<in> set filtered. docIdentifier ident d \<noteq> None"
    using isKept_wellformed by blast
  have fk: "filter ?K filtered = filtered"
    using keptAll by (simp add: filter_id_conv)
  have again: "filterVolumeList ident decorateObject filtered resourceControls userID userTeamIDs
      = Ok (map ?D filtered)"
    using filterVolumeList_wellformed[OF wf, of decorateObject resourceControls userID userTeamIDs] fk by simp
  have ids: "map (docIdentifier ident) (map ?D filtered) = map (docIdentifier ident) filtered"
    by (simp add: docIdentifier_decorateIfControlled[OF assms(1)] comp_def)
  have idem: "(\<forall>obj rc. decorateObject (decorateObject obj rc) rc = decorateObject obj rc)
      \<longrightarrow> map ?D filtered = filtered"
  proof
    assume i: "\<forall>obj rc. decorateObject (decorateObject obj rc) rc = decorateObject obj rc"
    show "map ?D filtered = filtered"
      unfolding eq by (simp add: decorateIfControlled_idem[OF assms(1) i])
  qed
  show ?thesis
    using again ids idem by simp
qed

theorem filterVolumeList_idempotent_witness:
  "(\<forall>obj rc. map_of (decorateOwners obj rc) ''Name'' = map_of obj ''Name'')
   \<and> filterVolumeList ''Name'' decorateOwners [volume ''v1'', volume ''v2''] [control ''v2'' [] [1]] 7 [1]
       = Ok [volume ''v1'', JObject (decorateOwners [(''Name'', JString ''v2''), (''Driver'', JString ''local'')]
                                     (control ''v2'' [] [1]))]
   \<and> (\<exists>again. filterVolumeList ''Name'' decorateOwners
          [volume ''v1'', JObject (decorateOwners [(''Name'', JString ''v2''), (''Driver'', JString ''local'')]
                                     (control ''v2'' [] [1]))]
          [control ''v2'' [] [1]] 7 [1] = Ok again
        \<and> length again = 2
        \<and> again = [volume ''v1'', JObject (decorateOwners [(''Name'', JString ''v2''), (''Driver'', JString ''local'')]
                                     (control ''v2'' [] [1]))])"
proof -
  let ?out = "[volume ''v1'', JObject (decorateOwners [(''Name'', JString ''v2''), (''Driver'', JString ''local'')]
                                     (control ''v2'' [] [1]))]"
  have keep: "\<forall>obj rc. map_of (decorateOwners obj rc) ''Name'' = map_of obj ''Name''"
    by (simp add: decorateOwners_keeps_Name)
  have twice: "\<forall>obj rc. decorateOwners (decorateOwners obj rc) rc = decorateOwners obj rc"
    by (simp add: decorateOwners_twice)
  have ev: "filterVolumeList ''Name'' decorateOwners [volume ''v1'', volume ''v2'']
      [control ''v2'' [] [1]] 7 [1] = Ok ?out"
    by (simp add: filterVolumeList_def volume_def control_def getResourceControlByResourceID_def
        canUserAccessResource_def)
  from filterVolumeList_idempotent[OF keep ev] twice
  have "filterVolumeList ''Name'' decorateOwners ?out [control ''v2'' [] [1]] 7 [1] = Ok ?out"
    by auto
  with keep ev show ?thesis by simp
qed

text \<open>
  C10: the filter is not total on decoded JSON. A list element that is not an object
  (null, a boolean, a number, a string, an array) makes the assertion
  \<^verbatim>\<open>volume.(map[string]interface{})\<close> panic, and an object whose identifier field holds a
  boolean, a number, an array or an object makes \<^verbatim>\<open>volumeObject[volumeIdentifier].(string)\<close>
  panic: the call returns neither a list nor an error.
\<close>

theorem filterVolumeList_panics:
  "filterVolumeList ident dec (JNull # rest) rcs uid teams = Panic
   \<and> filterVolumeList ident dec (JBool b # rest) rcs uid teams = Panic
   \<and> filterVolumeList ident dec (JNumber n # rest) rcs uid teams = Panic
   \<and> filterVolumeList ident dec (JString s # rest) rcs uid teams = Panic
   \<and> filterVolumeList ident dec (JArray xs # rest) rcs uid teams = Panic
   \<and> filterVolumeList ident dec (JObject ((ident, JBool b) # others) # rest) rcs uid teams = Panic
   \<and> filterVolumeList ident dec (JObject ((ident, JNumber n) # others) # rest) rcs uid teams = Panic
   \<and> filterVolumeList ident dec (JObject ((ident, JArray xs) # others) # rest) rcs uid teams = Panic
   \<and> filterVolumeList ident dec (JObject ((ident, JObject inner) # others) # rest) rcs uid teams = Panic"
  by (simp add: filterVolumeList_def)

section \<open>The access decision at its call sites\<close>

text \<open>
  \<open>canUserAccessResource\<close> is the decision of spec 4.5 for a caller who is not an
  administrator, and the test of the filter loop is that decision on the record of the
  document.
\<close>

lemma canUserAccessResource_allowed:
  "canUserAccessResource userID userTeamIDs resourceControl = allowed False userID userTeamIDs resourceControl"
  by (simp add: canUserAccessResource_def allowed_def split: option.splits)

lemma isKept_documentAllowed:
  "isKept ident controls userID userTeamIDs d = documentAllowed False userID userTeamIDs controls ident d"
  by (simp add: isKept_def documentAllowed_def allowed_def canUserAccessResource_def split: option.splits)

lemma documentAllowed_admin:
  "docIdentifier ident d \<noteq> None \<Longrightarrow> documentAllowed True callerId groups controls ident d"
  by (auto simp: documentAllowed_def allowed_def split: option.splits)

text \<open>
  For a caller who is not an administrator, \<open>filterVolumeList\<close> of filter.go and the
  filter of spec 4.6 agree on every list of documents with string identifiers.
\<close>

lemma responseFilter_filterVolumeList:
  assumes "\<not> isAdmin operationContext" and "\<forall>d \<in> set documents. docIdentifier ident d \<noteq> None"
  shows "filterVolumeList ident decorateObject documents (ctx_resourceControls operationContext)
           (ctx_userID operationContext) (ctx_userTeamIDs operationContext)
         = responseFilter ident ErrDockerVolumeIdentifierNotFound decorateObject operationContext documents"
proof -
  have "isKept ident (ctx_resourceControls operationContext) (ctx_userID operationContext)
          (ctx_userTeamIDs operationContext)
      = documentAllowed False (ctx_userID operationContext) (ctx_userTeamIDs operationContext)
          (ctx_resourceControls operationContext) ident"
    by (rule ext) (rule isKept_documentAllowed)
  then show ?thesis
    using assms by (simp add: filterVolumeList_wellformed responseFilter_def)
qed

text \<open>
  \<open>filterVolumeList\<close> takes no role: called with the identifier of an administrator
  who is in no team, it drops a volume scoped to other users, so the administrator case
  is settled before this function is reached (by the callback, which is handed
  \<open>isAdmin\<close>).
\<close>

lemma filterVolumeList_takes_no_role:
  "filterVolumeList ''Name'' decorateOwners [volume ''v1'', volume ''v2''] [control ''v2'' [8] [2]]
     (ID administrator) [] = Ok [volume ''v1'']"
  by (simp add: filterVolumeList_def volume_def control_def getResourceControlByResourceID_def
      canUserAccessResource_def administrator_def)

text \<open>
  On a path \<open>/volumes/{name}\<close> the request always reaches the engine, and what
  \<open>proxyVolumeRequest\<close> returns is the engine's answer to that last round trip.
\<close>

lemma proxyVolumeRequest_by_id_executes:
  assumes "URL_Path request \<noteq> ''/volumes/create''" and "URL_Path request \<noteq> ''/volumes/prune''"
    and "URL_Path request \<noteq> ''/volumes''"
  shows "\<exists>served. proxyVolumeRequest x p request engineLog
           = (dockerTransport p served request, served @ [request])"
  using assms by (simp add: proxyVolumeRequest_def Let_def executeDockerRequest_def)

section \<open>Properties of the transport\<close>

text \<open>
  C1: a DELETE on \<open>/volumes/v2\<close> by a standard user whose identifier and teams are all
  excluded by the record of \<open>v2\<close> should be answered with the forbidden response without
  the engine being invoked. Evaluated on this request: \<open>restrictedOperation\<close> does deny
  without touching the engine, but \<open>proxyVolumeRequest\<close> drops that result, hands the
  request to the engine and returns the engine's answer (status 204 here, with the
  request in the engine's log).
\<close>

theorem proxyVolumeRequest_denied_delete_reaches_engine:
  "\<not> canUserAccessResource (ID standardUser) (map Team_ID [team 1])
        (getResourceControlByResourceID ''v2'' [control ''v2'' [8] [2]])
   \<and> restrictedOperation (fixedExternals (Inr standardUser))
        (fixedTransport (Inr [team 1]) (Inr [control ''v2'' [8] [2]])) deleteV2 ''v2'' []
       = (writeAccessDeniedResponse, [])
   \<and> proxyVolumeRequest (fixedExternals (Inr standardUser))
        (fixedTransport (Inr [team 1]) (Inr [control ''v2'' [8] [2]])) deleteV2 []
       = ((Some \<lparr>StatusCode = 204, Body = JNull\<rparr>, None), [deleteV2])
   \<and> RoundTrip (fixedExternals (Inr standardUser))
        (fixedTransport (Inr [team 1]) (Inr [control ''v2'' [8] [2]])) deleteV2 []
       = ((Some \<lparr>StatusCode = 204, Body = JNull\<rparr>, None), [deleteV2])"
proof -
  let ?x = "fixedExternals (Inr standardUser)"
  let ?p = "fixedTransport (Inr [team 1]) (Inr [control ''v2'' [8] [2]])"
  have denied: "\<not> canUserAccessResource (ID standardUser) (map Team_ID [team 1])
        (getResourceControlByResourceID ''v2'' [control ''v2'' [8] [2]])"
    by (simp add: canUserAccessResource_def getResourceControlByResourceID_def control_def
        standardUser_def team_def)
  have r: "restrictedOperation ?x ?p deleteV2 ''v2'' [] = (writeAccessDeniedResponse, [])"
    using denied
    by (simp add: restrictedOperation_def fixedExternals_def fixedTransport_def
        standardUser_def StandardUserRole_def AdministratorRole_def)
  have b: "path_Base ''/volumes/v2'' = ''v2''"
    by (simp add: path_Base_def)
  have v: "proxyVolumeRequest ?x ?p deleteV2 []
      = ((Some \<lparr>StatusCode = 204, Body = JNull\<rparr>, None), [deleteV2])"
    using r b
    by (simp add: proxyVolumeRequest_def deleteV2_def executeDockerRequest_def
        fixedTransport_def engineNoContent_def)
  have t: "RoundTrip ?x ?p deleteV2 [] = proxyVolumeRequest ?x ?p deleteV2 []"
    by (simp add: RoundTrip_def proxyDockerRequest_def deleteV2_def)
  show ?thesis using denied r v t by simp
qed

text \<open>
  C2, as the spec states it: the predicate used by both the restrict path and the filter
  path allows if and only if the record is absent, or the caller is an administrator, or
  the caller's identifier is among the record's users, or the caller's teams meet the
  record's teams. The predicate both paths call, \<open>canUserAccessResource\<close>, is given the
  user identifier, the team identifiers and the record, and no role: for an administrator
  who is neither among the users of the record of \<open>v2\<close> nor in one of its teams,
  \<open>allowed\<close> of spec 4.5 holds, \<open>canUserAccessResource\<close> denies, and \<open>filterVolumeList\<close>
  drops the volume.
\<close>

theorem shared_predicate_denies_administrator_counterexample:
  "Role administrator = AdministratorRole
   \<and> allowed True (ID administrator) [] (Some (control ''v2'' [8] [2]))
   \<and> \<not> canUserAccessResource (ID administrator) [] (Some (control ''v2'' [8] [2]))
   \<and> filterVolumeList ''Name'' decorateOwners [volume ''v2''] [control ''v2'' [8] [2]]
        (ID administrator) [] = Ok []"
  by (simp add: allowed_def canUserAccessResource_def filterVolumeList_def volume_def control_def
      getResourceControlByResourceID_def administrator_def)

text \<open>
  C2, amended: the predicate shared by the restrict path and the filter path is the one
  \<open>canUserAccessResource\<close>, and it allows if and only if the record is absent, or the
  user identifier is among the record's users, or the team identifiers meet the record's
  teams; it takes no role. The administrator case is decided by the caller:
  \<open>restrictedOperation\<close> tests the role before it consults the predicate, so that it
  forwards the request exactly when \<open>allowed\<close> of spec 4.5 holds (record absent, or
  administrator, or user among the users, or a team among the teams) and denies
  otherwise; \<open>filterVolumeList\<close> applies the predicate to the identifier and teams it
  is given and keeps exactly the documents for which \<open>allowed\<close> holds without the
  administrator case.
\<close>

theorem access_decision_shared:
  "(GetTokenData x request = Inr tokenData
      \<and> (Role tokenData = AdministratorRole
          \<or> TeamService p (ID tokenData) = Inr userTeams
            \<and> ResourceControlService p VolumeResourceControl = Inr controls) \<longrightarrow>
    restrictedOperation x p request resourceID engineLog
      = (if allowed (Role tokenData = AdministratorRole) (ID tokenData) (map Team_ID userTeams)
              (getResourceControlByResourceID resourceID controls)
         then executeDockerRequest p request engineLog
         else (writeAccessDeniedResponse, engineLog)))
   \<and> ((\<forall>d \<in> set volumeData. docIdentifier ident d \<noteq> None) \<longrightarrow>
        filterVolumeList ident decorateObject volumeData controls userID userTeamIDs
          = Ok (map (decorateIfControlled ident decorateObject controls)
                  (filter (documentAllowed False userID userTeamIDs controls ident) volumeData)))
   \<and> canUserAccessResource userID userTeamIDs resourceControl
        = (resourceControl = None
           \<or> (\<exists>c. resourceControl = Some c
                 \<and> (userID \<in> set (Users c) \<or> set userTeamIDs \<inter> set (Teams c) \<noteq> {})))
   \<and> allowed callerIsAdmin callerId groups resourceControl
        = (resourceControl = None \<or> callerIsAdmin
           \<or> (\<exists>c. resourceControl = Some c
                 \<and> (callerId \<in> set (Users c) \<or> set groups \<inter> set (Teams c) \<noteq> {})))"
proof (intro conjI impI)
  assume h: "GetTokenData x request = Inr tokenData
      \<and> (Role tokenData = AdministratorRole
          \<or> TeamService p (ID tokenData) = Inr userTeams
            \<and> ResourceControlService p VolumeResourceControl = Inr controls)"
  show "restrictedOperation x p request resourceID engineLog
      = (if allowed (Role tokenData = AdministratorRole) (ID tokenData) (map Team_ID userTeams)
              (getResourceControlByResourceID resourceID controls)
         then executeDockerRequest p request engineLog
         else (writeAccessDeniedResponse, engineLog))"
  proof (cases "Role tokenData = AdministratorRole")
    case True
    then have "allowed (Role tokenData = AdministratorRole) (ID tokenData) (map Team_ID userTeams)
        (getResourceControlByResourceID resourceID controls)"
      by (simp add: allowed_def split: option.splits)
    then show ?thesis using h True by (simp add: restrictedOperation_def)
  next
    case False
    with h have l: "TeamService p (ID tokenData) = Inr userTeams"
      "ResourceControlService p VolumeResourceControl = Inr controls" by auto
    show ?thesis
      using h False l by (simp add: restrictedOperation_def canUserAccessResource_allowed)
  qed
next
  assume "\<forall>d \<in> set volumeData. docIdentifier ident d \<noteq> None"
  then have "filterVolumeList ident decorateObject volumeData controls userID userTeamIDs
      = Ok (map (decorateIfControlled ident decorateObject controls)
              (filter (isKept ident controls userID userTeamIDs) volumeData))"
    by (rule filterVolumeList_wellformed)
  moreover have "isKept ident controls userID userTeamIDs
      = documentAllowed False userID userTeamIDs controls ident"
    by (rule ext) (rule isKept_documentAllowed)
  ultimately show "filterVolumeList ident decorateObject volumeData controls userID userTeamIDs
      = Ok (map (decorateIfControlled ident decorateObject controls)
              (filter (documentAllowed False userID userTeamIDs controls ident) volumeData))"
    by simp
next
  show "canUserAccessResource userID userTeamIDs resourceControl
        = (resourceControl = None
           \<or> (\<exists>c. resourceControl = Some c
                 \<and> (userID \<in> set (Users c) \<or> set userTeamIDs \<inter> set (Teams c) \<noteq> {})))"
    by (cases resourceControl) (auto simp: canUserAccessResource_def)
next
  show "allowed callerIsAdmin callerId groups resourceControl
        = (resourceControl = None \<or> callerIsAdmin
           \<or> (\<exists>c. resourceControl = Some c
                 \<and> (callerId \<in> set (Users c) \<or> set groups \<inter> set (Teams c) \<noteq> {})))"
    by (cases resourceControl) (auto simp: allowed_def)
qed

theorem access_decision_shared_witness:
  "GetTokenData (fixedExternals (Inr standardUser)) deleteV2 = Inr standardUser
   \<and> TeamService (fixedTransport (Inr [team 1]) (Inr [control ''v2'' [8] [2]])) (ID standardUser)
       = Inr [team 1]
   \<and> ResourceControlService (fixedTransport (Inr [team 1]) (Inr [control ''v2'' [8] [2]]))
        VolumeResourceControl = Inr [control ''v2'' [8] [2]]
   \<and> \<not> allowed (Role standardUser = AdministratorRole) (ID standardUser) (map Team_ID [team 1])
          (getResourceControlByResourceID ''v2'' [control ''v2'' [8] [2]])
   \<and> restrictedOperation (fixedExternals (Inr standardUser))
        (fixedTransport (Inr [team 1]) (Inr [control ''v2'' [8] [2]])) deleteV2 ''v2'' []
       = (writeAccessDeniedResponse, [])
   \<and> GetTokenData (fixedExternals (Inr administrator)) deleteV2 = Inr administrator
   \<and> Role administrator = AdministratorRole
   \<and> restrictedOperation (fixedExternals (Inr administrator))
        (fixedTransport (Inr []) (Inr [control ''v2'' [8] [2]])) deleteV2 ''v2'' []
       = ((Some \<lparr>StatusCode = 204, Body = JNull\<rparr>, None), [deleteV2])
   \<and> docIdentifier ''Name'' (volume ''v1'') \<noteq> None
   \<and> docIdentifier ''Name'' (volume ''v2'') \<noteq> None
   \<and> filterVolumeList ''Name'' decorateOwners [volume ''v1'', volume ''v2'']
        [control ''v2'' [8] [2]] 7 [1] = Ok [volume ''v1'']"
proof -
  let ?x = "fixedExternals (Inr standardUser)"
  let ?xa = "fixedExternals (Inr administrator)"
  let ?rcs = "[control ''v2'' [8] [2]]"
  let ?p = "fixedTransport (Inr [team 1]) (Inr ?rcs)"
  let ?pa = "fixedTransport (Inr []) (Inr ?rcs)"
  have t1: "GetTokenData ?x deleteV2 = Inr standardUser"
    by (simp add: fixedExternals_def)
  have m1: "TeamService ?p (ID standardUser) = Inr [team 1]"
    by (simp add: fixedTransport_def)
  have r1: "ResourceControlService ?p VolumeResourceControl = Inr ?rcs"
    by (simp add: fixedTransport_def)
  have denied: "\<not> allowed (Role standardUser = AdministratorRole) (ID standardUser) (map Team_ID [team 1])
      (getResourceControlByResourceID ''v2'' ?rcs)"
    by (simp add: allowed_def getResourceControlByResourceID_def control_def standardUser_def
        team_def StandardUserRole_def AdministratorRole_def)
  have t2: "GetTokenData ?xa deleteV2 = Inr administrator"
    by (simp add: fixedExternals_def)
  have role: "Role administrator = AdministratorRole"
    by (simp add: administrator_def)
  have adm: "allowed (Role administrator = AdministratorRole) (ID administrator) (map Team_ID [])
      (getResourceControlByResourceID ''v2'' ?rcs)"
    by (simp add: allowed_def role split: option.splits)
  have w1: "docIdentifier ''Name'' (volume ''v1'') \<noteq> None"
    by (simp add: docIdentifier_def volume_def)
  have w2: "docIdentifier ''Name'' (volume ''v2'') \<noteq> None"
    by (simp add: docIdentifier_def volume_def)
  have wf: "\<forall>d \<in> set [volume ''v1'', volume ''v2'']. docIdentifier ''Name'' d \<noteq> None"
    using w1 w2 by simp
  have k1: "documentAllowed False 7 [1] ?rcs ''Name'' (volume ''v1'')"
    by (simp add: documentAllowed_def docIdentifier_def volume_def allowed_def
        getResourceControlByResourceID_def control_def)
  have k2: "\<not> documentAllowed False 7 [1] ?rcs ''Name'' (volume ''v2'')"
    by (simp add: documentAllowed_def docIdentifier_def volume_def allowed_def
        getResourceControlByResourceID_def control_def)
  have d1: "decorateIfControlled ''Name'' decorateOwners ?rcs (volume ''v1'') = volume ''v1''"
    by (simp add: decorateIfControlled_def docIdentifier_def volume_def
        getResourceControlByResourceID_def control_def)
  note a = access_decision_shared[of ?x deleteV2 standardUser ?p "[team 1]" ?rcs "''v2''" "[]"
      "[volume ''v1'', volume ''v2'']" "''Name''" decorateOwners 7 "[1]"]
  note b = access_decision_shared[of ?xa deleteV2 administrator ?pa "[]" ?rcs "''v2''" "[]"]
  have A: "restrictedOperation ?x ?p deleteV2 ''v2'' [] = (writeAccessDeniedResponse, [])"
    using a[THEN conjunct1, THEN mp, OF conjI[OF t1 disjI2[OF conjI[OF m1 r1]]]] denied by simp
  have B: "restrictedOperation ?xa ?pa deleteV2 ''v2'' [] = executeDockerRequest ?pa deleteV2 []"
    using b[THEN conjunct1, THEN mp, OF conjI[OF t2 disjI1[OF role]]] adm by simp
  have B': "restrictedOperation ?xa ?pa deleteV2 ''v2'' []
      = ((Some \<lparr>StatusCode = 204, Body = JNull\<rparr>, None), [deleteV2])"
    using B by (simp add: executeDockerRequest_def fixedTransport_def engineNoContent_def)
  have F: "filterVolumeList ''Name'' decorateOwners [volume ''v1'', volume ''v2''] ?rcs 7 [1]
      = Ok [volume ''v1'']"
    using a[THEN conjunct2, THEN conjunct1, THEN mp, OF wf] k1 k2 d1 by simp
  show ?thesis
    using t1 m1 r1 denied A t2 role B' w1 w2 F by simp
qed

text \<open>
  C4: for an administrator \<open>rewriteOperation\<close> hands the callback a context with
  \<open>isAdmin\<close> set, and the filter of spec 4.6 under such a context returns the whole
  input list in its order, whatever the control records: no document is dropped, a
  document with a record appears decorated, a document without one unchanged.
\<close>

theorem administrator_receives_full_list:
  "(GetTokenData x request = Inr tokenData
      \<and> Role tokenData = AdministratorRole
      \<and> ResourceControlService p VolumeResourceControl = Inr controls
      \<and> dockerTransport p engineLog request = (response, None) \<longrightarrow>
    rewriteOperation x p request operation engineLog
      = (operation request response
           \<lparr>isAdmin = True, ctx_userID = ID tokenData, ctx_userTeamIDs = [],
            ctx_resourceControls = controls\<rparr>,
         engineLog @ [request]))
   \<and> (isAdmin operationContext \<and> (\<forall>d \<in> set documents. docIdentifier ident d \<noteq> None) \<longrightarrow>
        responseFilter ident notFound decorateObject operationContext documents
          = Ok (map (decorateIfControlled ident decorateObject (ctx_resourceControls operationContext))
                  documents))
   \<and> (isAdmin operationContext
        \<and> responseFilter ident notFound decorateObject operationContext documents = Ok filtered \<longrightarrow>
        length filtered = length documents
        \<and> filtered = map (decorateIfControlled ident decorateObject (ctx_resourceControls operationContext))
                       documents)"
proof (intro conjI impI)
  assume "GetTokenData x request = Inr tokenData
      \<and> Role tokenData = AdministratorRole
      \<and> ResourceControlService p VolumeResourceControl = Inr controls
      \<and> dockerTransport p engineLog request = (response, None)"
  then show "rewriteOperation x p request operation engineLog
      = (operation request response
           \<lparr>isAdmin = True, ctx_userID = ID tokenData, ctx_userTeamIDs = [],
            ctx_resourceControls = controls\<rparr>,
         engineLog @ [request])"
    by (simp add: rewriteOperation_def executeDockerRequest_def)
next
  assume h: "isAdmin operationContext \<and> (\<forall>d \<in> set documents. docIdentifier ident d \<noteq> None)"
  then have "filter (documentAllowed (isAdmin operationContext) (ctx_userID operationContext)
        (ctx_userTeamIDs operationContext) (ctx_resourceControls operationContext) ident) documents
      = documents"
    by (simp add: filter_id_conv documentAllowed_admin)
  with h show "responseFilter ident notFound decorateObject operationContext documents
      = Ok (map (decorateIfControlled ident decorateObject (ctx_resourceControls operationContext))
              documents)"
    by (simp add: responseFilter_def)
next
  assume h: "isAdmin operationContext
      \<and> responseFilter ident notFound decorateObject operationContext documents = Ok filtered"
  then have wf: "\<forall>d \<in> set documents. docIdentifier ident d \<noteq> None"
    by (auto simp: responseFilter_def split: if_splits)
  with h have all: "filter (documentAllowed (isAdmin operationContext) (ctx_userID operationContext)
        (ctx_userTeamIDs operationContext) (ctx_resourceControls operationContext) ident) documents
      = documents"
    by (simp add: filter_id_conv documentAllowed_admin)
  from h wf all
  have eq: "filtered = map (decorateIfControlled ident decorateObject (ctx_resourceControls operationContext))
      documents"
    by (simp add: responseFilter_def split: if_splits)
  then show "length filtered = length documents" by simp
  from eq show "filtered = map (decorateIfControlled ident decorateObject (ctx_resourceControls operationContext))
      documents" .
qed

theorem administrator_receives_full_list_witness:
  "GetTokenData (fixedExternals (Inr administrator)) listVolumes = Inr administrator
   \<and> Role administrator = AdministratorRole
   \<and> ResourceControlService (fixedTransport (Inr []) (Inr [control ''v2'' [8] [2]]))
        VolumeResourceControl = Inr [control ''v2'' [8] [2]]
   \<and> dockerTransport (fixedTransport (Inr []) (Inr [control ''v2'' [8] [2]])) [] listVolumes
       = (Some \<lparr>StatusCode = 204, Body = JNull\<rparr>, None)
   \<and> rewriteOperation (fixedExternals (Inr administrator))
        (fixedTransport (Inr []) (Inr [control ''v2'' [8] [2]])) listVolumes keepResponse []
       = (keepResponse listVolumes (Some \<lparr>StatusCode = 204, Body = JNull\<rparr>)
            \<lparr>isAdmin = True, ctx_userID = ID administrator, ctx_userTeamIDs = [],
             ctx_resourceControls = [control ''v2'' [8] [2]]\<rparr>,
          [listVolumes])
   \<and> isAdmin \<lparr>isAdmin = True, ctx_userID = ID administrator, ctx_userTeamIDs = [],
               ctx_resourceControls = [control ''v2'' [8] [2]]\<rparr>
   \<and> docIdentifier ''Name'' (volume ''v1'') \<noteq> None
   \<and> docIdentifier ''Name'' (volume ''v2'') \<noteq> None
   \<and> responseFilter ''Name'' ErrDockerVolumeIdentifierNotFound decorateOwners
        \<lparr>isAdmin = True, ctx_userID = ID administrator, ctx_userTeamIDs = [],
         ctx_resourceControls = [control ''v2'' [8] [2]]\<rparr>
        [volume ''v1'', volume ''v2'']
       = Ok [volume ''v1'',
             JObject (decorateOwners [(''Name'', JString ''v2''), (''Driver'', JString ''local'')]
                        (control ''v2'' [8] [2]))]"
proof -
  let ?xa = "fixedExternals (Inr administrator)"
  let ?rcs = "[control ''v2'' [8] [2]]"
  let ?pa = "fixedTransport (Inr []) (Inr ?rcs)"
  let ?ctx = "\<lparr>isAdmin = True, ctx_userID = ID administrator, ctx_userTeamIDs = [],
               ctx_resourceControls = ?rcs\<rparr>"
  have t: "GetTokenData ?xa listVolumes = Inr administrator"
    by (simp add: fixedExternals_def)
  have role: "Role administrator = AdministratorRole"
    by (simp add: administrator_def)
  have r: "ResourceControlService ?pa VolumeResourceControl = Inr ?rcs"
    by (simp add: fixedTransport_def)
  have e: "dockerTransport ?pa [] listVolumes = (Some \<lparr>StatusCode = 204, Body = JNull\<rparr>, None)"
    by (simp add: fixedTransport_def engineNoContent_def)
  have adm: "isAdmin ?ctx" by simp
  have w1: "docIdentifier ''Name'' (volume ''v1'') \<noteq> None"
    by (simp add: docIdentifier_def volume_def)
  have w2: "docIdentifier ''Name'' (volume ''v2'') \<noteq> None"
    by (simp add: docIdentifier_def volume_def)
  have wf: "\<forall>d \<in> set [volume ''v1'', volume ''v2'']. docIdentifier ''Name'' d \<noteq> None"
    using w1 w2 by simp
  have d1: "decorateIfControlled ''Name'' decorateOwners ?rcs (volume ''v1'') = volume ''v1''"
    by (simp add: decorateIfControlled_def docIdentifier_def volume_def
        getResourceControlByResourceID_def control_def)
  have d2: "decorateIfControlled ''Name'' decorateOwners ?rcs (volume ''v2'')
      = JObject (decorateOwners [(''Name'', JString ''v2''), (''Driver'', JString ''local'')]
                   (control ''v2'' [8] [2]))"
    by (simp add: decorateIfControlled_def docIdentifier_def volume_def
        getResourceControlByResourceID_def control_def)
  note a = administrator_receives_full_list[of ?xa listVolumes administrator ?pa ?rcs "[]"
      "Some \<lparr>StatusCode = 204, Body = JNull\<rparr>" keepResponse ?ctx
      "[volume ''v1'', volume ''v2'']" "''Name''" ErrDockerVolumeIdentifierNotFound decorateOwners]
  have A: "rewriteOperation ?xa ?pa listVolumes keepResponse []
      = (keepResponse listVolumes (Some \<lparr>StatusCode = 204, Body = JNull\<rparr>) ?ctx, [listVolumes])"
    using a[THEN conjunct1, THEN mp, OF conjI[OF t conjI[OF role conjI[OF r e]]]] by simp
  have B: "responseFilter ''Name'' ErrDockerVolumeIdentifierNotFound decorateOwners ?ctx
      [volume ''v1'', volume ''v2'']
      = Ok [volume ''v1'',
            JObject (decorateOwners [(''Name'', JString ''v2''), (''Driver'', JString ''local'')]
                       (control ''v2'' [8] [2]))]"
    using a[THEN conjunct2, THEN conjunct1, THEN mp, OF conjI[OF adm wf]] d1 d2 by simp
  show ?thesis
    using t role r e A adm w1 w2 B by simp
qed

text \<open>
  C5, as the spec states it: the rewrite strategy never returns without having contacted
  the engine. This fails: when the identity cannot be resolved, or the registry lookup
  fails, \<open>rewriteOperation\<close> returns the error and the engine's log is still empty.
\<close>

theorem rewriteOperation_returns_without_engine_counterexample:
  "rewriteOperation (fixedExternals (Inl (ErrOther ''no token''))) (fixedTransport (Inr []) (Inr []))
      listVolumes keepResponse []
     = ((None, Some (ErrOther ''no token'')), [])
   \<and> rewriteOperation (fixedExternals (Inr standardUser))
        (fixedTransport (Inr []) (Inl (ErrOther ''registry down''))) listVolumes keepResponse []
     = ((None, Some (ErrOther ''registry down'')), [])"
  by (simp add: rewriteOperation_def fixedExternals_def fixedTransport_def)

text \<open>
  C5, amended: when identity resolution, the registry lookup and, for a caller who is not
  an administrator, the membership lookup succeed, \<open>rewriteOperation\<close> hands the request
  to the engine exactly once, before the callback runs and whatever the caller's role,
  teams and control records are: no access decision gates the execution, and the
  callback only rewrites the engine's answer. When one of the three lookups fails, the
  error is returned and the engine is not contacted.
\<close>

theorem rewriteOperation_engine_contact:
  "(GetTokenData x request = Inl e \<longrightarrow>
      rewriteOperation x p request operation engineLog = ((None, Some e), engineLog))
   \<and> (GetTokenData x request = Inr tokenData
        \<and> ResourceControlService p VolumeResourceControl = Inl e \<longrightarrow>
      rewriteOperation x p request operation engineLog = ((None, Some e), engineLog))
   \<and> (GetTokenData x request = Inr tokenData
        \<and> ResourceControlService p VolumeResourceControl = Inr controls
        \<and> Role tokenData \<noteq> AdministratorRole
        \<and> TeamService p (ID tokenData) = Inl e \<longrightarrow>
      rewriteOperation x p request operation engineLog = ((None, Some e), engineLog))
   \<and> (GetTokenData x request = Inr tokenData
        \<and> ResourceControlService p VolumeResourceControl = Inr controls
        \<and> (Role tokenData = AdministratorRole \<or> TeamService p (ID tokenData) = Inr userTeams) \<longrightarrow>
      snd (rewriteOperation x p request operation engineLog) = engineLog @ [request]
      \<and> fst (rewriteOperation x p request operation engineLog)
          = (case dockerTransport p engineLog request of
               (response, err) \<Rightarrow>
                 if err \<noteq> None then (response, err)
                 else operation request response
                        \<lparr>isAdmin = (Role tokenData = AdministratorRole),
                         ctx_userID = ID tokenData,
                         ctx_userTeamIDs =
                           (if Role tokenData = AdministratorRole then [] else map Team_ID userTeams),
                         ctx_resourceControls = controls\<rparr>))"
  by (auto simp: rewriteOperation_def executeDockerRequest_def split: prod.splits)

theorem rewriteOperation_engine_contact_witness:
  "GetTokenData (fixedExternals (Inl (ErrOther ''no token''))) listVolumes = Inl (ErrOther ''no token'')
   \<and> rewriteOperation (fixedExternals (Inl (ErrOther ''no token''))) (fixedTransport (Inr []) (Inr []))
        listVolumes keepResponse [] = ((None, Some (ErrOther ''no token'')), [])
   \<and> GetTokenData (fixedExternals (Inr standardUser)) listVolumes = Inr standardUser
   \<and> ResourceControlService (fixedTransport (Inr [team 1]) (Inl (ErrOther ''registry down'')))
        VolumeResourceControl = Inl (ErrOther ''registry down'')
   \<and> rewriteOperation (fixedExternals (Inr standardUser))
        (fixedTransport (Inr [team 1]) (Inl (ErrOther ''registry down''))) listVolumes keepResponse []
       = ((None, Some (ErrOther ''registry down'')), [])
   \<and> ResourceControlService (fixedTransport (Inl (ErrOther ''teams down'')) (Inr [control ''v2'' [8] [2]]))
        VolumeResourceControl = Inr [control ''v2'' [8] [2]]
   \<and> Role standardUser \<noteq> AdministratorRole
   \<and> TeamService (fixedTransport (Inl (ErrOther ''teams down'')) (Inr [control ''v2'' [8] [2]]))
        (ID standardUser) = Inl (ErrOther ''teams down'')
   \<and> rewriteOperation (fixedExternals (Inr standardUser))
        (fixedTransport (Inl (ErrOther ''teams down'')) (Inr [control ''v2'' [8] [2]])) listVolumes keepResponse []
       = ((None, Some (ErrOther ''teams down'')), [])
   \<and> ResourceControlService (fixedTransport (Inr [team 1]) (Inr [control ''v2'' [8] [2]]))
        VolumeResourceControl = Inr [control ''v2'' [8] [2]]
   \<and> TeamService (fixedTransport (Inr [team 1]) (Inr [control ''v2'' [8] [2]])) (ID standardUser)
       = Inr [team 1]
   \<and> snd (rewriteOperation (fixedExternals (Inr standardUser))
        (fixedTransport (Inr [team 1]) (Inr [control ''v2'' [8] [2]])) listVolumes keepResponse [])
       = [listVolumes]
   \<and> fst (rewriteOperation (fixedExternals (Inr standardUser))
        (fixedTransport (Inr [team 1]) (Inr [control ''v2'' [8] [2]])) listVolumes keepResponse [])
       = (Some \<lparr>StatusCode = 204, Body = JNull\<rparr>, None)"
proof -
  let ?xe = "fixedExternals (Inl (ErrOther ''no token''))"
  let ?x = "fixedExternals (Inr standardUser)"
  let ?rcs = "[control ''v2'' [8] [2]]"
  have t0: "GetTokenData ?xe listVolumes = Inl (ErrOther ''no token'')"
    by (simp add: fixedExternals_def)
  have t1: "GetTokenData ?x listVolumes = Inr standardUser"
    by (simp add: fixedExternals_def)
  have r1: "ResourceControlService (fixedTransport (Inr [team 1]) (Inl (ErrOther ''registry down'')))
        VolumeResourceControl = Inl (ErrOther ''registry down'')"
    by (simp add: fixedTransport_def)
  have r2: "ResourceControlService (fixedTransport (Inl (ErrOther ''teams down'')) (Inr ?rcs))
        VolumeResourceControl = Inr ?rcs"
    by (simp add: fixedTransport_def)
  have role: "Role standardUser \<noteq> AdministratorRole"
    by (simp add: standardUser_def StandardUserRole_def AdministratorRole_def)
  have m2: "TeamService (fixedTransport (Inl (ErrOther ''teams down'')) (Inr ?rcs)) (ID standardUser)
      = Inl (ErrOther ''teams down'')"
    by (simp add: fixedTransport_def)
  have r3: "ResourceControlService (fixedTransport (Inr [team 1]) (Inr ?rcs)) VolumeResourceControl
      = Inr ?rcs"
    by (simp add: fixedTransport_def)
  have m3: "TeamService (fixedTransport (Inr [team 1]) (Inr ?rcs)) (ID standardUser) = Inr [team 1]"
    by (simp add: fixedTransport_def)
  have e3: "dockerTransport (fixedTransport (Inr [team 1]) (Inr ?rcs)) [] listVolumes
      = (Some \<lparr>StatusCode = 204, Body = JNull\<rparr>, None)"
    by (simp add: fixedTransport_def engineNoContent_def)
  note a = rewriteOperation_engine_contact[of ?xe listVolumes "ErrOther ''no token''"
      "fixedTransport (Inr []) (Inr [])" keepResponse "[]"]
  note b = rewriteOperation_engine_contact[of ?x listVolumes "ErrOther ''registry down''"
      "fixedTransport (Inr [team 1]) (Inl (ErrOther ''registry down''))" keepResponse "[]" standardUser]
  note c = rewriteOperation_engine_contact[of ?x listVolumes "ErrOther ''teams down''"
      "fixedTransport (Inl (ErrOther ''teams down'')) (Inr ?rcs)" keepResponse "[]" standardUser ?rcs]
  note d = rewriteOperation_engine_contact[of ?x listVolumes _
      "fixedTransport (Inr [team 1]) (Inr ?rcs)" keepResponse "[]" standardUser ?rcs "[team 1]"]
  have A: "rewriteOperation ?xe (fixedTransport (Inr []) (Inr [])) listVolumes keepResponse []
      = ((None, Some (ErrOther ''no token'')), [])"
    using a t0 by blast
  have B: "rewriteOperation ?x (fixedTransport (Inr [team 1]) (Inl (ErrOther ''registry down'')))
      listVolumes keepResponse [] = ((None, Some (ErrOther ''registry down'')), [])"
    using b t1 r1 by blast
  have C: "rewriteOperation ?x (fixedTransport (Inl (ErrOther ''teams down'')) (Inr ?rcs))
      listVolumes keepResponse [] = ((None, Some (ErrOther ''teams down'')), [])"
    using c t1 r2 role m2 by blast
  have D: "snd (rewriteOperation ?x (fixedTransport (Inr [team 1]) (Inr ?rcs)) listVolumes keepResponse [])
      = [] @ [listVolumes]
    \<and> fst (rewriteOperation ?x (fixedTransport (Inr [team 1]) (Inr ?rcs)) listVolumes keepResponse [])
      = (case dockerTransport (fixedTransport (Inr [team 1]) (Inr ?rcs)) [] listVolumes of
               (response, err) \<Rightarrow>
                 if err \<noteq> None then (response, err)
                 else keepResponse listVolumes response
                        \<lparr>isAdmin = (Role standardUser = AdministratorRole),
                         ctx_userID = ID standardUser,
                         ctx_userTeamIDs =
                           (if Role standardUser = AdministratorRole then [] else map Team_ID [team 1]),
                         ctx_resourceControls = ?rcs\<rparr>)"
    using d t1 r3 m3 by blast
  have D': "snd (rewriteOperation ?x (fixedTransport (Inr [team 1]) (Inr ?rcs)) listVolumes keepResponse [])
      = [listVolumes]
    \<and> fst (rewriteOperation ?x (fixedTransport (Inr [team 1]) (Inr ?rcs)) listVolumes keepResponse [])
      = (Some \<lparr>StatusCode = 204, Body = JNull\<rparr>, None)"
    using D e3 by (simp add: keepResponse_def)
  show ?thesis
    using t0 t1 r1 r2 role m2 r3 m3 A B C D' by simp
qed

text \<open>
  C8: in \<open>restrictedOperation\<close> a failure of identity resolution, of the membership
  lookup or of the registry lookup ends the call with a nil response and that error, the
  engine's log unchanged. A denial leaves the log unchanged too but is a returned
  response with status 403 and a nil error, which no error outcome equals.
\<close>

theorem restrictedOperation_failures_abort:
  "(GetTokenData x request = Inl e \<longrightarrow>
      restrictedOperation x p request resourceID engineLog = ((None, Some e), engineLog))
   \<and> (GetTokenData x request = Inr tokenData
        \<and> Role tokenData \<noteq> AdministratorRole
        \<and> TeamService p (ID tokenData) = Inl e \<longrightarrow>
      restrictedOperation x p request resourceID engineLog = ((None, Some e), engineLog))
   \<and> (GetTokenData x request = Inr tokenData
        \<and> Role tokenData \<noteq> AdministratorRole
        \<and> TeamService p (ID tokenData) = Inr userTeams
        \<and> ResourceControlService p VolumeResourceControl = Inl e \<longrightarrow>
      restrictedOperation x p request resourceID engineLog = ((None, Some e), engineLog))
   \<and> (GetTokenData x request = Inr tokenData
        \<and> Role tokenData \<noteq> AdministratorRole
        \<and> TeamService p (ID tokenData) = Inr userTeams
        \<and> ResourceControlService p VolumeResourceControl = Inr controls
        \<and> \<not> canUserAccessResource (ID tokenData) (map Team_ID userTeams)
              (getResourceControlByResourceID resourceID controls) \<longrightarrow>
      restrictedOperation x p request resourceID engineLog = (writeAccessDeniedResponse, engineLog))
   \<and> writeAccessDeniedResponse = (Some \<lparr>StatusCode = 403, Body = JNull\<rparr>, None)
   \<and> (None, Some e) \<noteq> writeAccessDeniedResponse"
  by (auto simp: restrictedOperation_def writeAccessDeniedResponse_def)

theorem restrictedOperation_failures_abort_witness:
  "GetTokenData (fixedExternals (Inl (ErrOther ''no token''))) deleteV2 = Inl (ErrOther ''no token'')
   \<and> restrictedOperation (fixedExternals (Inl (ErrOther ''no token''))) (fixedTransport (Inr []) (Inr []))
        deleteV2 ''v2'' [] = ((None, Some (ErrOther ''no token'')), [])
   \<and> GetTokenData (fixedExternals (Inr standardUser)) deleteV2 = Inr standardUser
   \<and> Role standardUser \<noteq> AdministratorRole
   \<and> TeamService (fixedTransport (Inl (ErrOther ''teams down'')) (Inr [control ''v2'' [8] [2]]))
        (ID standardUser) = Inl (ErrOther ''teams down'')
   \<and> restrictedOperation (fixedExternals (Inr standardUser))
        (fixedTransport (Inl (ErrOther ''teams down'')) (Inr [control ''v2'' [8] [2]])) deleteV2 ''v2'' []
       = ((None, Some (ErrOther ''teams down'')), [])
   \<and> TeamService (fixedTransport (Inr [team 1]) (Inl (ErrOther ''registry down''))) (ID standardUser)
       = Inr [team 1]
   \<and> ResourceControlService (fixedTransport (Inr [team 1]) (Inl (ErrOther ''registry down'')))
        VolumeResourceControl = Inl (ErrOther ''registry down'')
   \<and> restrictedOperation (fixedExternals (Inr standardUser))
        (fixedTransport (Inr [team 1]) (Inl (ErrOther ''registry down''))) deleteV2 ''v2'' []
       = ((None, Some (ErrOther ''registry down'')), [])
   \<and> TeamService (fixedTransport (Inr [team 1]) (Inr [control ''v2'' [8] [2]])) (ID standardUser)
       = Inr [team 1]
   \<and> ResourceControlService (fixedTransport (Inr [team 1]) (Inr [control ''v2'' [8] [2]]))
        VolumeResourceControl = Inr [control ''v2'' [8] [2]]
   \<and> \<not> canUserAccessResource (ID standardUser) (map Team_ID [team 1])
          (getResourceControlByResourceID ''v2'' [control ''v2'' [8] [2]])
   \<and> restrictedOperation (fixedExternals (Inr standardUser))
        (fixedTransport (Inr [team 1]) (Inr [control ''v2'' [8] [2]])) deleteV2 ''v2'' []
       = ((Some \<lparr>StatusCode = 403, Body = JNull\<rparr>, None), [])"
proof -
  let ?xe = "fixedExternals (Inl (ErrOther ''no token''))"
  let ?x = "fixedExternals (Inr standardUser)"
  let ?rcs = "[control ''v2'' [8] [2]]"
  have t0: "GetTokenData ?xe deleteV2 = Inl (ErrOther ''no token'')"
    by (simp add: fixedExternals_def)
  have t1: "GetTokenData ?x deleteV2 = Inr standardUser"
    by (simp add: fixedExternals_def)
  have role: "Role standardUser \<noteq> AdministratorRole"
    by (simp add: standardUser_def StandardUserRole_def AdministratorRole_def)
  have m1: "TeamService (fixedTransport (Inl (ErrOther ''teams down'')) (Inr ?rcs)) (ID standardUser)
      = Inl (ErrOther ''teams down'')"
    by (simp add: fixedTransport_def)
  have m2: "TeamService (fixedTransport (Inr [team 1]) (Inl (ErrOther ''registry down''))) (ID standardUser)
      = Inr [team 1]"
    by (simp add: fixedTransport_def)
  have r2: "ResourceControlService (fixedTransport (Inr [team 1]) (Inl (ErrOther ''registry down'')))
      VolumeResourceControl = Inl (ErrOther ''registry down'')"
    by (simp add: fixedTransport_def)
  have m3: "TeamService (fixedTransport (Inr [team 1]) (Inr ?rcs)) (ID standardUser) = Inr [team 1]"
    by (simp add: fixedTransport_def)
  have r3: "ResourceControlService (fixedTransport (Inr [team 1]) (Inr ?rcs)) VolumeResourceControl
      = Inr ?rcs"
    by (simp add: fixedTransport_def)
  have denied: "\<not> canUserAccessResource (ID standardUser) (map Team_ID [team 1])
      (getResourceControlByResourceID ''v2'' ?rcs)"
    by (simp add: canUserAccessResource_def getResourceControlByResourceID_def control_def
        standardUser_def team_def)
  note a = restrictedOperation_failures_abort[of ?xe deleteV2 "ErrOther ''no token''"
      "fixedTransport (Inr []) (Inr [])" "''v2''" "[]"]
  note b = restrictedOperation_failures_abort[of ?x deleteV2 "ErrOther ''teams down''"
      "fixedTransport (Inl (ErrOther ''teams down'')) (Inr ?rcs)" "''v2''" "[]" standardUser]
  note c = restrictedOperation_failures_abort[of ?x deleteV2 "ErrOther ''registry down''"
      "fixedTransport (Inr [team 1]) (Inl (ErrOther ''registry down''))" "''v2''" "[]" standardUser "[team 1]"]
  note d = restrictedOperation_failures_abort[of ?x deleteV2 _
      "fixedTransport (Inr [team 1]) (Inr ?rcs)" "''v2''" "[]" standardUser "[team 1]" ?rcs]
  have A: "restrictedOperation ?xe (fixedTransport (Inr []) (Inr [])) deleteV2 ''v2'' []
      = ((None, Some (ErrOther ''no token'')), [])"
    using a t0 by blast
  have B: "restrictedOperation ?x (fixedTransport (Inl (ErrOther ''teams down'')) (Inr ?rcs)) deleteV2 ''v2'' []
      = ((None, Some (ErrOther ''teams down'')), [])"
    using b t1 role m1 by blast
  have C: "restrictedOperation ?x (fixedTransport (Inr [team 1]) (Inl (ErrOther ''registry down'')))
      deleteV2 ''v2'' [] = ((None, Some (ErrOther ''registry down'')), [])"
    using c t1 role m2 r2 by blast
  have D: "restrictedOperation ?x (fixedTransport (Inr [team 1]) (Inr ?rcs)) deleteV2 ''v2'' []
      = ((Some \<lparr>StatusCode = 403, Body = JNull\<rparr>, None), [])"
    using d t1 role m3 r3 denied by metis
  show ?thesis
    using t0 t1 role m1 m2 r2 m3 r3 denied A B C D by simp
qed

end
